theory Spec2Isabelle
  imports Main
begin

section \<open>Values of the host language\<close>

text \<open>
  The settings module of the bot (\<^verbatim>\<open>server_settings.py\<close>) is embedded function by function.
  Python exceptions are values of \<open>py_error\<close>; a function that can raise returns
  \<open>py_error + 'a\<close> with \<open>Inl\<close> for the raised error.
\<close>

datatype py_error = TypeError | KeyError | ValueError | IndexError

text \<open>
  \<^verbatim>\<open>datetime.datetime\<close>: the fields of a time stamp. A datetime object is always truthy in
  Python, so \<^verbatim>\<open>a or b\<close> on optional time stamps only tests for \<^verbatim>\<open>None\<close>.
\<close>

record datetime =
  year :: nat
  month :: nat
  day :: nat
  hour :: nat
  minute :: nat
  second :: nat
  microsecond :: nat

text \<open>
  A value stored in a column of the table \<^verbatim>\<open>serversettings\<close>, or passed as a positional
  parameter of a statement.
\<close>

datatype val = VNull | VInt int | VBool bool | VText string | VTimestamp datetime

text \<open>
  Python truthiness of the optional values the module tests with \<^verbatim>\<open>if x\<close>, \<^verbatim>\<open>not x\<close> and
  \<^verbatim>\<open>x or y\<close>: \<^verbatim>\<open>None\<close>, the integer 0 and the empty string are falsy.
\<close>

fun truthy_int :: "int option \<Rightarrow> bool" where
  "truthy_int None = False"
| "truthy_int (Some n) = (n \<noteq> 0)"

fun truthy_str :: "string option \<Rightarrow> bool" where
  "truthy_str None = False"
| "truthy_str (Some s) = (s \<noteq> [])"

text \<open>
  \<^verbatim>\<open>str.lower\<close> on the ASCII letters. The characters of a \<open>string\<close> are bytes; a code point
  outside ASCII is a sequence of bytes above 127, which this function leaves alone. No
  code point outside ASCII has a lower-case form among the letters of the tokens compared
  below, so on those comparisons the function agrees with Python's.
\<close>

definition lower_char :: "char \<Rightarrow> char" where
  "lower_char c =
     (case map_of (zip ''ABCDEFGHIJKLMNOPQRSTUVWXYZ'' ''abcdefghijklmnopqrstuvwxyz'') c of
        Some l \<Rightarrow> l
      | None \<Rightarrow> c)"

definition lower :: "string \<Rightarrow> string" where
  "lower s = map lower_char s"

section \<open>Constants and enumerations\<close>

definition COLUMN_NAME_GUILD_ID :: string where
  "COLUMN_NAME_GUILD_ID = ''guildid''"

definition COLUMN_NAME_DAILY_CAN_POST :: string where
  "COLUMN_NAME_DAILY_CAN_POST = ''dailycanpost''"

definition COLUMN_NAME_DAILY_CHANNEL_ID :: string where
  "COLUMN_NAME_DAILY_CHANNEL_ID = ''dailychannelid''"

definition COLUMN_NAME_DAILY_LATEST_MESSAGE_ID :: string where
  "COLUMN_NAME_DAILY_LATEST_MESSAGE_ID = ''dailylatestmessageid''"

definition COLUMN_NAME_USE_PAGINATION :: string where
  "COLUMN_NAME_USE_PAGINATION = ''usepagination''"

definition COLUMN_NAME_PREFIX :: string where
  "COLUMN_NAME_PREFIX = ''prefix''"

definition COLUMN_NAME_DAILY_CHANGE_MODE :: string where
  "COLUMN_NAME_DAILY_CHANGE_MODE = ''dailychangemode''"

definition COLUMN_NAME_DAILY_NOTIFY_ID :: string where
  "COLUMN_NAME_DAILY_NOTIFY_ID = ''dailynotifyid''"

definition COLUMN_NAME_DAILY_NOTIFY_TYPE :: string where
  "COLUMN_NAME_DAILY_NOTIFY_TYPE = ''dailynotifytype''"

definition COLUMN_NAME_DAILY_LATEST_MESSAGE_CREATED_AT :: string where
  "COLUMN_NAME_DAILY_LATEST_MESSAGE_CREATED_AT = ''dailylatestmessagecreatedate''"

definition COLUMN_NAME_DAILY_LATEST_MESSAGE_MODIFIED_AT :: string where
  "COLUMN_NAME_DAILY_LATEST_MESSAGE_MODIFIED_AT = ''dailylatestmessagemodifydate''"

definition COLUMN_NAME_BOT_NEWS_CHANNEL_ID :: string where
  "COLUMN_NAME_BOT_NEWS_CHANNEL_ID = ''botnewschannelid''"

text \<open>
  \<^verbatim>\<open>_VALID_PAGINATION_SWITCH_VALUES\<close>, in the order of the source. The two emoji keys are
  written as their UTF-8 bytes (thumbs up: F0 9F 91 8D, thumbs down: F0 9F 91 8E).
\<close>

definition thumbs_up :: string where
  "thumbs_up = [CHR 0xF0, CHR 0x9F, CHR 0x91, CHR 0x8D]"

definition thumbs_down :: string where
  "thumbs_down = [CHR 0xF0, CHR 0x9F, CHR 0x91, CHR 0x8E]"

definition VALID_PAGINATION_SWITCH_VALUES :: "(string \<times> bool) list" where
  "VALID_PAGINATION_SWITCH_VALUES =
     [(''on'', True), (''true'', True), (''1'', True), (''yes'', True), (thumbs_up, True),
      (''off'', False), (''false'', False), (''0'', False), (''no'', False),
      (thumbs_down, False)]"

text \<open>
  The two \<^verbatim>\<open>IntEnum\<close> classes. A member of an \<^verbatim>\<open>IntEnum\<close> is an integer, and the change
  mode held in memory comes from a database row as a plain integer, so both are kept as
  their integer codes. Calling the class on an integer (\<^verbatim>\<open>AutoDailyChangeMode(n)\<close>) raises
  \<^verbatim>\<open>ValueError\<close> when no member has that code.
\<close>

definition USER :: int where "USER = 1"
definition ROLE :: int where "ROLE = 2"

definition POST_NEW :: int where "POST_NEW = 1"
definition DELETE_AND_POST_NEW :: int where "DELETE_AND_POST_NEW = 2"
definition EDIT :: int where "EDIT = 3"

definition AutoDailyChangeMode :: "int \<Rightarrow> py_error + int" where
  "AutoDailyChangeMode n =
     (if n = POST_NEW \<or> n = DELETE_AND_POST_NEW \<or> n = EDIT then Inr n else Inl ValueError)"

definition DEFAULT_AUTODAILY_CHANGE_MODE :: int where
  "DEFAULT_AUTODAILY_CHANGE_MODE = POST_NEW"

section \<open>Setting codec\<close>

definition convert_from_autodaily_notify_type :: "int option \<Rightarrow> val" where
  "convert_from_autodaily_notify_type notify_type =
     (if truthy_int notify_type then VInt (the notify_type) else VNull)"

definition convert_from_on_off :: "string option \<Rightarrow> bool option" where
  "convert_from_on_off switch =
     (case switch of
        None \<Rightarrow> None
      | Some s \<Rightarrow> map_of VALID_PAGINATION_SWITCH_VALUES (lower s))"

definition convert_to_autodaily_notify_type :: "int option \<Rightarrow> int option" where
  "convert_to_autodaily_notify_type notify_type =
     (if truthy_int notify_type
      then find (\<lambda>member. member = the notify_type) [USER, ROLE]
      else None)"

definition convert_to_on_off :: "bool option \<Rightarrow> string" where
  "convert_to_on_off v =
     (if v = Some True then ''ON'' else if v = Some False then ''OFF'' else ''<NOT SET>'')"

definition convert_to_edit_delete :: "int \<Rightarrow> string" where
  "convert_to_edit_delete v =
     (if v = DELETE_AND_POST_NEW then ''Delete daily post and post new daily on change.''
      else if v = EDIT then ''Edit daily post on change.''
      else if v = POST_NEW then ''Post new daily on change.''
      else ''<not specified>'')"

section \<open>Objects of the chat platform\<close>

text \<open>
  The objects the module receives from the chat platform's library, reduced to the
  attributes the module reads. None of their classes defines a truth value, so an object
  is truthy and \<^verbatim>\<open>if obj\<close> only tests for \<^verbatim>\<open>None\<close>. \<open>Other\<close> stands for an object
  of any other class that has an \<^verbatim>\<open>id\<close>.
\<close>

record TextChannel =
  channel_id :: int
  channel_name :: string

record Guild =
  guild_ident :: int
  guild_members :: "int list"
  guild_roles :: "int list"

datatype mention = Member int | User int | Role int | Other int

fun mention_id :: "mention \<Rightarrow> int" where
  "mention_id (Member i) = i"
| "mention_id (User i) = i"
| "mention_id (Role i) = i"
| "mention_id (Other i) = i"

record Message =
  message_id :: int
  created_at :: datetime
  edited_at :: "datetime option"

text \<open>
  Modelled from the spec: the directory lookup contract (section 6), whose code is the
  chat platform's library. Given an identifier a lookup resolves the object or reports
  "not found"; it never raises for a missing identifier.
\<close>

record Bot =
  bot_channels :: "TextChannel list"
  bot_guilds :: "Guild list"

definition get_channel :: "Bot \<Rightarrow> int option \<Rightarrow> TextChannel option" where
  "get_channel client ident =
     (case ident of
        None \<Rightarrow> None
      | Some i \<Rightarrow> find (\<lambda>c. channel_id c = i) (bot_channels client))"

definition get_guild :: "Bot \<Rightarrow> int option \<Rightarrow> Guild option" where
  "get_guild client ident =
     (case ident of
        None \<Rightarrow> None
      | Some i \<Rightarrow> find (\<lambda>g. guild_ident g = i) (bot_guilds client))"

definition get_member :: "Guild \<Rightarrow> int \<Rightarrow> mention option" where
  "get_member g i = (if i \<in> set (guild_members g) then Some (Member i) else None)"

definition get_role :: "Guild \<Rightarrow> int \<Rightarrow> mention option" where
  "get_role g i = (if i \<in> set (guild_roles g) then Some (Role i) else None)"

text \<open>
  The constants of the module \<^verbatim>\<open>settings\<close> (imported as \<^verbatim>\<open>app_settings\<close>), which is not
  part of the sources: they are parameters of the functions that read them.
\<close>

record app_settings =
  DEFAULT_PREFIX :: string
  DEFAULT_USE_EMOJI_PAGINATOR :: bool

section \<open>Persistence gateway\<close>

text \<open>
  Modelled from the spec: the persistence gateway (section 6, the module \<^verbatim>\<open>database\<close>)
  and the table \<^verbatim>\<open>serversettings\<close> with its primary key \<^verbatim>\<open>guildid\<close>. A statement keeps
  what the literal SQL text of the source says: the columns selected or set, in order,
  and the positional parameters. The gateway's failures are an explicit script: each call
  takes the next outcome (an exhausted script means success). A failed write leaves the
  table alone and answers \<^verbatim>\<open>False\<close>; a failed read answers no rows. Every statement
  handed to \<^verbatim>\<open>try_execute\<close> is recorded in \<open>executed\<close>.
\<close>

type_synonym row = "(string \<times> val) list"

datatype statement =
    SELECT "string list" "int option"
  | INSERT int int
  | UPDATE "(string \<times> val) list" "int option"
  | DELETE int

record gateway =
  serversettings :: "row list"
  script :: "bool list"
  executed :: "statement list"

definition row_get :: "row \<Rightarrow> string \<Rightarrow> val" where
  "row_get r k = (case map_of r k of Some v \<Rightarrow> v | None \<Rightarrow> VNull)"

definition new_row :: "int \<Rightarrow> int \<Rightarrow> row" where
  "new_row guild_id change_mode =
     [(COLUMN_NAME_GUILD_ID, VInt guild_id),
      (COLUMN_NAME_PREFIX, VNull),
      (COLUMN_NAME_USE_PAGINATION, VNull),
      (COLUMN_NAME_DAILY_CAN_POST, VNull),
      (COLUMN_NAME_DAILY_CHANNEL_ID, VNull),
      (COLUMN_NAME_DAILY_LATEST_MESSAGE_ID, VNull),
      (COLUMN_NAME_DAILY_CHANGE_MODE, VInt change_mode),
      (COLUMN_NAME_DAILY_NOTIFY_ID, VNull),
      (COLUMN_NAME_DAILY_NOTIFY_TYPE, VNull),
      (COLUMN_NAME_DAILY_LATEST_MESSAGE_CREATED_AT, VNull),
      (COLUMN_NAME_DAILY_LATEST_MESSAGE_MODIFIED_AT, VNull),
      (COLUMN_NAME_BOT_NEWS_CHANNEL_ID, VNull)]"

definition has_guild_id :: "int \<Rightarrow> row \<Rightarrow> bool" where
  "has_guild_id guild_id r = (row_get r COLUMN_NAME_GUILD_ID = VInt guild_id)"

definition update_row :: "(string \<times> val) list \<Rightarrow> row \<Rightarrow> row" where
  "update_row settings r =
     map (\<lambda>(k, v). (k, case map_of settings k of Some w \<Rightarrow> w | None \<Rightarrow> v)) r"

definition next_outcome :: "gateway \<Rightarrow> bool \<times> gateway" where
  "next_outcome gw =
     (case script gw of
        [] \<Rightarrow> (True, gw)
      | b # bs \<Rightarrow> (b, gw\<lparr>script := bs\<rparr>))"

fun apply_statement :: "statement \<Rightarrow> row list \<Rightarrow> bool \<times> row list" where
  "apply_statement (SELECT columns guild_id) rows = (True, rows)"
| "apply_statement (INSERT guild_id change_mode) rows =
     (if list_ex (has_guild_id guild_id) rows then (False, rows)
      else (True, rows @ [new_row guild_id change_mode]))"
| "apply_statement (UPDATE settings guild_id) rows =
     (case guild_id of
        None \<Rightarrow> (True, rows)
      | Some g \<Rightarrow>
          (True, map (\<lambda>r. if has_guild_id g r then update_row settings r else r) rows))"
| "apply_statement (DELETE guild_id) rows =
     (True, filter (\<lambda>r. \<not> has_guild_id guild_id r) rows)"

definition try_execute :: "gateway \<Rightarrow> statement \<Rightarrow> bool \<times> gateway" where
  "try_execute gw stmt =
     (let (ok, gw1) = next_outcome gw;
          gw2 = gw1\<lparr>executed := executed gw1 @ [stmt]\<rparr>
      in if ok
         then (let (success, rows) = apply_statement stmt (serversettings gw2)
               in (success, gw2\<lparr>serversettings := rows\<rparr>))
         else (False, gw2))"

definition fetchall :: "gateway \<Rightarrow> string list \<Rightarrow> int option \<Rightarrow> row list \<times> gateway" where
  "fetchall gw columns guild_id =
     (let (ok, gw1) = next_outcome gw;
          matching = (case guild_id of
                        None \<Rightarrow> serversettings gw1
                      | Some g \<Rightarrow> filter (has_guild_id g) (serversettings gw1));
          project = (\<lambda>r. if columns = [] then r else map (\<lambda>k. (k, row_get r k)) columns)
      in if ok then (map project matching, gw1) else ([], gw1))"

section \<open>Database utilities of the module\<close>

text \<open>
  \<^verbatim>\<open>_db_get_server_settings\<close> without \<^verbatim>\<open>additional_wheres\<close> (no caller embedded here passes
  any): a \<^verbatim>\<open>WHERE guildid = $1\<close> when a guild id is given, the named columns or \<^verbatim>\<open>*\<close>.
\<close>

definition db_get_server_settings ::
  "gateway \<Rightarrow> int option \<Rightarrow> string list \<Rightarrow> row list \<times> gateway" where
  "db_get_server_settings gw guild_id setting_names = fetchall gw setting_names guild_id"

text \<open>
  \<^verbatim>\<open>_db_get_server_setting\<close> without conversion functions: the values of the first record,
  by position, or \<^verbatim>\<open>None\<close> when there is no record.
\<close>

definition db_get_server_setting ::
  "gateway \<Rightarrow> int option \<Rightarrow> string list \<Rightarrow> val list option \<times> gateway" where
  "db_get_server_setting gw guild_id setting_names =
     (let (settings, gw1) = db_get_server_settings gw guild_id setting_names
      in case settings of
           [] \<Rightarrow> (None, gw1)
         | setting # _ \<Rightarrow>
             (let result = map snd setting
              in (Some (if result = [] then replicate (length setting_names) VNull else result),
                  gw1)))"

definition db_update_server_settings ::
  "gateway \<Rightarrow> int option \<Rightarrow> (string \<times> val) list \<Rightarrow> bool \<times> gateway" where
  "db_update_server_settings gw guild_id settings =
     (if settings \<noteq> [] then try_execute gw (UPDATE settings guild_id) else (True, gw))"

definition db_get_has_settings :: "gateway \<Rightarrow> int \<Rightarrow> bool \<times> gateway" where
  "db_get_has_settings gw guild_id =
     (let (results, gw1) = db_get_server_settings gw (Some guild_id) []
      in (results \<noteq> [], gw1))"

definition db_create_server_settings :: "gateway \<Rightarrow> int \<Rightarrow> bool \<times> gateway" where
  "db_create_server_settings gw guild_id =
     (let (has_settings, gw1) = db_get_has_settings gw guild_id
      in if has_settings then (True, gw1)
         else try_execute gw1 (INSERT guild_id DEFAULT_AUTODAILY_CHANGE_MODE))"

definition db_delete_server_settings :: "gateway \<Rightarrow> int \<Rightarrow> bool \<times> gateway" where
  "db_delete_server_settings gw guild_id = try_execute gw (DELETE guild_id)"

text \<open>
  \<^verbatim>\<open>db_get_prefix\<close>: \<^verbatim>\<open>result[0] or None\<close>, on a column that holds text or null.
  Subscripting \<^verbatim>\<open>None\<close> (no record came back) raises \<^verbatim>\<open>TypeError\<close>.
\<close>

definition db_get_prefix :: "gateway \<Rightarrow> int \<Rightarrow> (py_error + string option) \<times> gateway" where
  "db_get_prefix gw guild_id =
     (let (created, gw1) = db_create_server_settings gw guild_id;
          (result, gw2) = db_get_server_setting gw1 (Some guild_id) [COLUMN_NAME_PREFIX]
      in case result of
           None \<Rightarrow> (Inl TypeError, gw2)
         | Some [] \<Rightarrow> (Inl IndexError, gw2)
         | Some (v # _) \<Rightarrow>
             (Inr (case v of VText t \<Rightarrow> (if t \<noteq> [] then Some t else None) | _ \<Rightarrow> None),
              gw2))"

definition get_prefix_or_default ::
  "app_settings \<Rightarrow> gateway \<Rightarrow> int \<Rightarrow> (py_error + string) \<times> gateway" where
  "get_prefix_or_default cfg gw guild_id =
     (let (result, gw1) = db_get_prefix gw guild_id
      in case result of
           Inl e \<Rightarrow> (Inl e, gw1)
         | Inr None \<Rightarrow> (Inr (DEFAULT_PREFIX cfg), gw1)
         | Inr (Some p) \<Rightarrow>
             (Inr (if lower p = ''none'' then DEFAULT_PREFIX cfg else p), gw1))"

section \<open>AutoDailySettings\<close>

text \<open>
  The private attributes of the class. \<open>ads_delete_on_change\<close> is the attribute
  \<^verbatim>\<open>__delete_on_change\<close>, which \<^verbatim>\<open>reset\<close>, \<^verbatim>\<open>reset_daily_delete_on_change\<close> and
  \<^verbatim>\<open>update\<close> assign and nothing reads; the property \<^verbatim>\<open>change_mode\<close> reads
  \<^verbatim>\<open>__change_mode\<close>. The attribute \<^verbatim>\<open>__notify_type\<close>, which the constructor assigns and
  nothing reads (the property \<^verbatim>\<open>notify_type\<close> looks at the class of \<^verbatim>\<open>notify\<close>), is left
  out.
\<close>

record AutoDailySettings =
  ads_can_post :: "bool option"
  ads_channel :: "TextChannel option"
  ads_change_mode :: int
  ads_guild :: "Guild option"
  ads_latest_message_id :: "int option"
  ads_latest_message_created_at :: "datetime option"
  ads_latest_message_modified_at :: "datetime option"
  ads_notify :: "mention option"
  ads_delete_on_change :: "int option"

definition AutoDailySettings_init ::
  "Guild option \<Rightarrow> TextChannel option \<Rightarrow> bool option \<Rightarrow> int option \<Rightarrow> int option \<Rightarrow>
   mention option \<Rightarrow> datetime option \<Rightarrow> datetime option \<Rightarrow> AutoDailySettings" where
  "AutoDailySettings_init guild channel can_post latest_message_id change_mode notify
     latest_message_created_at latest_message_modified_at =
     \<lparr>ads_can_post = can_post,
      ads_channel = channel,
      ads_change_mode = (if truthy_int change_mode then the change_mode else POST_NEW),
      ads_guild = guild,
      ads_latest_message_id = (if truthy_int latest_message_id then latest_message_id else None),
      ads_latest_message_created_at = latest_message_created_at,
      ads_latest_message_modified_at = latest_message_modified_at,
      ads_notify = notify,
      ads_delete_on_change = None\<rparr>"

definition channel_id_of :: "AutoDailySettings \<Rightarrow> int option" where
  "channel_id_of s = map_option channel_id (ads_channel s)"

definition guild_id_of :: "AutoDailySettings \<Rightarrow> int option" where
  "guild_id_of s = map_option guild_ident (ads_guild s)"

definition notify_id :: "AutoDailySettings \<Rightarrow> int option" where
  "notify_id s = map_option mention_id (ads_notify s)"

definition notify_type :: "AutoDailySettings \<Rightarrow> int option" where
  "notify_type s =
     (case ads_notify s of
        Some (Role _) \<Rightarrow> Some ROLE
      | Some (Member _) \<Rightarrow> Some USER
      | Some (User _) \<Rightarrow> Some USER
      | _ \<Rightarrow> None)"

definition AutoDailySettings_reset ::
  "gateway \<Rightarrow> AutoDailySettings \<Rightarrow> bool \<times> gateway \<times> AutoDailySettings" where
  "AutoDailySettings_reset gw s =
     (let settings =
            [(COLUMN_NAME_DAILY_CHANNEL_ID, VNull),
             (COLUMN_NAME_DAILY_LATEST_MESSAGE_ID, VNull),
             (COLUMN_NAME_DAILY_CHANGE_MODE, VInt DEFAULT_AUTODAILY_CHANGE_MODE),
             (COLUMN_NAME_DAILY_NOTIFY_ID, VNull),
             (COLUMN_NAME_DAILY_NOTIFY_TYPE, VNull),
             (COLUMN_NAME_DAILY_LATEST_MESSAGE_CREATED_AT, VNull),
             (COLUMN_NAME_DAILY_LATEST_MESSAGE_MODIFIED_AT, VNull)];
          (success, gw1) = db_update_server_settings gw (guild_id_of s) settings
      in (success, gw1,
          if success
          then s\<lparr>ads_channel := None,
                 ads_delete_on_change := None,
                 ads_notify := None,
                 ads_latest_message_id := None,
                 ads_latest_message_created_at := None,
                 ads_latest_message_modified_at := None\<rparr>
          else s))"

definition reset_channel ::
  "gateway \<Rightarrow> AutoDailySettings \<Rightarrow> bool \<times> gateway \<times> AutoDailySettings" where
  "reset_channel gw s =
     (let settings =
            [(COLUMN_NAME_DAILY_CHANNEL_ID, VNull),
             (COLUMN_NAME_DAILY_LATEST_MESSAGE_ID, VNull),
             (COLUMN_NAME_DAILY_LATEST_MESSAGE_CREATED_AT, VNull),
             (COLUMN_NAME_DAILY_LATEST_MESSAGE_MODIFIED_AT, VNull)];
          (success, gw1) = db_update_server_settings gw (guild_id_of s) settings
      in (success, gw1,
          if success
          then s\<lparr>ads_channel := None,
                 ads_latest_message_id := None,
                 ads_latest_message_created_at := None,
                 ads_latest_message_modified_at := None\<rparr>
          else s))"

definition set_channel ::
  "gateway \<Rightarrow> AutoDailySettings \<Rightarrow> TextChannel \<Rightarrow> bool \<times> gateway \<times> AutoDailySettings" where
  "set_channel gw s channel =
     (if \<not> truthy_int (channel_id_of s) \<or> Some (channel_id channel) \<noteq> channel_id_of s
      then (let settings =
                  [(COLUMN_NAME_DAILY_CHANNEL_ID, VInt (channel_id channel)),
                   (COLUMN_NAME_DAILY_LATEST_MESSAGE_ID, VNull)];
                (success, gw1) = db_update_server_settings gw (guild_id_of s) settings
            in (success, gw1, if success then s\<lparr>ads_channel := Some channel\<rparr> else s))
      else (True, gw, s))"

text \<open>
  \<^verbatim>\<open>set_latest_message\<close>. The dictionary \<^verbatim>\<open>settings\<close> is built as the source builds it and
  read back by key after a successful write; \<open>setting_int\<close> and \<open>setting_timestamp\<close> are
  the subscript \<^verbatim>\<open>settings[key]\<close> at the two types stored there.
\<close>

definition setting_int :: "(string \<times> val) list \<Rightarrow> string \<Rightarrow> int option" where
  "setting_int settings k = (case map_of settings k of Some (VInt n) \<Rightarrow> Some n | _ \<Rightarrow> None)"

definition setting_timestamp :: "(string \<times> val) list \<Rightarrow> string \<Rightarrow> datetime option" where
  "setting_timestamp settings k =
     (case map_of settings k of Some (VTimestamp t) \<Rightarrow> Some t | _ \<Rightarrow> None)"

definition is_new_day :: "AutoDailySettings \<Rightarrow> Message \<Rightarrow> bool" where
  "is_new_day s message =
     (case ads_latest_message_created_at s of
        None \<Rightarrow> True
      | Some stored \<Rightarrow> day (created_at message) \<noteq> day stored)"

definition latest_message_settings ::
  "AutoDailySettings \<Rightarrow> Message option \<Rightarrow> (string \<times> val) list" where
  "latest_message_settings s message =
     (case message of
        Some m \<Rightarrow>
          (let new_day = is_new_day s m;
               modified_at =
                 (if new_day then created_at m
                  else (case edited_at m of Some e \<Rightarrow> e | None \<Rightarrow> created_at m))
           in if \<not> truthy_int (ads_latest_message_id s)
                 \<or> Some (message_id m) \<noteq> ads_latest_message_id s
              then [(COLUMN_NAME_DAILY_LATEST_MESSAGE_ID, VInt (message_id m)),
                    (COLUMN_NAME_DAILY_LATEST_MESSAGE_MODIFIED_AT, VTimestamp modified_at)]
                   @ (if new_day
                      then [(COLUMN_NAME_DAILY_LATEST_MESSAGE_CREATED_AT,
                             VTimestamp (created_at m))]
                      else [])
              else [])
      | None \<Rightarrow>
          [(COLUMN_NAME_DAILY_LATEST_MESSAGE_ID, VNull),
           (COLUMN_NAME_DAILY_LATEST_MESSAGE_MODIFIED_AT, VNull),
           (COLUMN_NAME_DAILY_LATEST_MESSAGE_CREATED_AT, VNull)])"

definition set_latest_message ::
  "gateway \<Rightarrow> AutoDailySettings \<Rightarrow> Message option \<Rightarrow> bool \<times> gateway \<times> AutoDailySettings" where
  "set_latest_message gw s message =
     (let settings = latest_message_settings s message
      in if settings \<noteq> []
         then (let (success, gw1) = db_update_server_settings gw (guild_id_of s) settings
               in (success, gw1,
                   if success
                   then (let s1 = s\<lparr>ads_latest_message_id :=
                                        setting_int settings COLUMN_NAME_DAILY_LATEST_MESSAGE_ID,
                                      ads_latest_message_modified_at :=
                                        setting_timestamp settings
                                          COLUMN_NAME_DAILY_LATEST_MESSAGE_MODIFIED_AT\<rparr>
                         in if COLUMN_NAME_DAILY_LATEST_MESSAGE_CREATED_AT \<in> set (map fst settings)
                            then s1\<lparr>ads_latest_message_created_at :=
                                       setting_timestamp settings
                                         COLUMN_NAME_DAILY_LATEST_MESSAGE_CREATED_AT\<rparr>
                            else s1)
                   else s))
         else (True, gw, s))"

definition set_notify ::
  "gateway \<Rightarrow> AutoDailySettings \<Rightarrow> mention option \<Rightarrow>
   (py_error + bool) \<times> gateway \<times> AutoDailySettings" where
  "set_notify gw s notify =
     (case notify of
        None \<Rightarrow> (Inr False, gw, s)
      | Some n \<Rightarrow>
          (let new_id = mention_id n;
               new_type = (case n of
                             Role _ \<Rightarrow> Inr ROLE
                           | Member _ \<Rightarrow> Inr USER
                           | User _ \<Rightarrow> Inr USER
                           | Other _ \<Rightarrow> Inl TypeError)
           in case new_type of
                Inl e \<Rightarrow> (Inl e, gw, s)
              | Inr t \<Rightarrow>
                  (if \<not> truthy_int (notify_id s) \<or> Some new_id \<noteq> notify_id s
                   then (let settings =
                               [(COLUMN_NAME_DAILY_NOTIFY_ID, VInt new_id),
                                (COLUMN_NAME_DAILY_NOTIFY_TYPE,
                                 convert_from_autodaily_notify_type (Some t))];
                             (success, gw1) =
                               db_update_server_settings gw (guild_id_of s) settings
                         in (Inr success, gw1,
                             if success then s\<lparr>ads_notify := Some n\<rparr> else s))
                   else (Inr True, gw, s))))"

definition toggle_change_mode ::
  "gateway \<Rightarrow> AutoDailySettings \<Rightarrow> (py_error + bool) \<times> gateway \<times> AutoDailySettings" where
  "toggle_change_mode gw s =
     (let int_value = ads_change_mode s
      in case AutoDailyChangeMode ((int_value mod 3) + 1) of
           Inl e \<Rightarrow> (Inl e, gw, s)
         | Inr new_value \<Rightarrow>
             (let settings = [(COLUMN_NAME_DAILY_CHANGE_MODE, VInt new_value)];
                  (success, gw1) = db_update_server_settings gw (guild_id_of s) settings
              in (Inr success, gw1,
                  if success then s\<lparr>ads_change_mode := new_value\<rparr> else s)))"

section \<open>GuildSettings\<close>

record GuildSettings =
  gs_guild_id :: "int option"
  gs_prefix :: "string option"
  gs_use_pagination :: "bool option"
  gs_bot_news_channel_id :: "int option"
  gs_guild :: "Guild option"
  gs_bot_news_channel :: "TextChannel option"
  gs_autodaily :: AutoDailySettings

text \<open>
  The values of a record, at the types of their columns (\<^verbatim>\<open>row.get(name)\<close>).
\<close>

definition get_int :: "row \<Rightarrow> string \<Rightarrow> int option" where
  "get_int r k = (case row_get r k of VInt n \<Rightarrow> Some n | _ \<Rightarrow> None)"

definition get_bool :: "row \<Rightarrow> string \<Rightarrow> bool option" where
  "get_bool r k = (case row_get r k of VBool b \<Rightarrow> Some b | _ \<Rightarrow> None)"

definition get_text :: "row \<Rightarrow> string \<Rightarrow> string option" where
  "get_text r k = (case row_get r k of VText t \<Rightarrow> Some t | _ \<Rightarrow> None)"

definition get_timestamp :: "row \<Rightarrow> string \<Rightarrow> datetime option" where
  "get_timestamp r k = (case row_get r k of VTimestamp t \<Rightarrow> Some t | _ \<Rightarrow> None)"

text \<open>
  The constructor. A lookup that raises is caught by the source and counts as
  \<^verbatim>\<open>None\<close>, which is what the lookups of the model answer for an unknown identifier. The
  warnings printed are left out.
\<close>

definition GuildSettings_init :: "Bot \<Rightarrow> row \<Rightarrow> GuildSettings" where
  "GuildSettings_init client r =
     (let guild_id = get_int r COLUMN_NAME_GUILD_ID;
          bot_news_channel_id = get_int r COLUMN_NAME_BOT_NEWS_CHANNEL_ID;
          daily_channel_id = get_int r COLUMN_NAME_DAILY_CHANNEL_ID;
          can_post_daily = get_bool r COLUMN_NAME_DAILY_CAN_POST;
          daily_latest_message_id = get_int r COLUMN_NAME_DAILY_LATEST_MESSAGE_ID;
          daily_post_mode = get_int r COLUMN_NAME_DAILY_CHANGE_MODE;
          daily_notify_id = get_int r COLUMN_NAME_DAILY_NOTIFY_ID;
          daily_notify_type =
            convert_to_autodaily_notify_type (get_int r COLUMN_NAME_DAILY_NOTIFY_TYPE);
          daily_latest_message_created_at =
            get_timestamp r COLUMN_NAME_DAILY_LATEST_MESSAGE_CREATED_AT;
          daily_latest_message_modified_at =
            get_timestamp r COLUMN_NAME_DAILY_LATEST_MESSAGE_MODIFIED_AT;
          channel = get_channel client daily_channel_id;
          guild = get_guild client guild_id;
          bot_news_channel = get_channel client bot_news_channel_id;
          notify =
            (if truthy_int daily_notify_id \<and> truthy_int daily_notify_type \<and> guild \<noteq> None
             then (if daily_notify_type = Some USER
                   then get_member (the guild) (the daily_notify_id)
                   else if daily_notify_type = Some ROLE
                   then get_role (the guild) (the daily_notify_id)
                   else None)
             else None)
      in \<lparr>gs_guild_id = guild_id,
          gs_prefix = get_text r COLUMN_NAME_PREFIX,
          gs_use_pagination = get_bool r COLUMN_NAME_USE_PAGINATION,
          gs_bot_news_channel_id = bot_news_channel_id,
          gs_guild = guild,
          gs_bot_news_channel = bot_news_channel,
          gs_autodaily =
            AutoDailySettings_init guild channel can_post_daily daily_latest_message_id
              daily_post_mode notify daily_latest_message_created_at
              daily_latest_message_modified_at\<rparr>)"

definition prefix_of :: "app_settings \<Rightarrow> GuildSettings \<Rightarrow> string" where
  "prefix_of cfg g = (if truthy_str (gs_prefix g) then the (gs_prefix g) else DEFAULT_PREFIX cfg)"

definition use_pagination :: "app_settings \<Rightarrow> GuildSettings \<Rightarrow> bool" where
  "use_pagination cfg g =
     (case gs_use_pagination g of
        None \<Rightarrow> DEFAULT_USE_EMOJI_PAGINATOR cfg
      | Some b \<Rightarrow> b)"

definition reset_bot_news_channel ::
  "gateway \<Rightarrow> GuildSettings \<Rightarrow> bool \<times> gateway \<times> GuildSettings" where
  "reset_bot_news_channel gw g =
     (if truthy_int (gs_bot_news_channel_id g)
      then (let settings = [(COLUMN_NAME_BOT_NEWS_CHANNEL_ID, VNull)];
                (success, gw1) = db_update_server_settings gw (gs_guild_id g) settings
            in (success, gw1,
                if success
                then g\<lparr>gs_bot_news_channel_id := None, gs_bot_news_channel := None\<rparr>
                else g))
      else (True, gw, g))"

definition reset_prefix ::
  "gateway \<Rightarrow> GuildSettings \<Rightarrow> bool \<times> gateway \<times> GuildSettings" where
  "reset_prefix gw g =
     (if truthy_str (gs_prefix g)
      then (let settings = [(COLUMN_NAME_PREFIX, VNull)];
                (success, gw1) = db_update_server_settings gw (gs_guild_id g) settings
            in (success, gw1, if success then g\<lparr>gs_prefix := None\<rparr> else g))
      else (True, gw, g))"

definition reset_use_pagination ::
  "gateway \<Rightarrow> GuildSettings \<Rightarrow> bool \<times> gateway \<times> GuildSettings" where
  "reset_use_pagination gw g =
     (if gs_use_pagination g \<noteq> None
      then (let settings = [(COLUMN_NAME_USE_PAGINATION, VNull)];
                (success, gw1) = db_update_server_settings gw (gs_guild_id g) settings
            in (success, gw1, if success then g\<lparr>gs_use_pagination := None\<rparr> else g))
      else (True, gw, g))"

definition GuildSettings_reset ::
  "gateway \<Rightarrow> GuildSettings \<Rightarrow> (bool \<times> bool \<times> bool \<times> bool) \<times> gateway \<times> GuildSettings" where
  "GuildSettings_reset gw g =
     (let (success_prefix, gw1, g1) = reset_prefix gw g;
          (success_pagination, gw2, g2) = reset_use_pagination gw1 g1;
          (success_autodaily, gw3, a3) = AutoDailySettings_reset gw2 (gs_autodaily g2);
          g3 = g2\<lparr>gs_autodaily := a3\<rparr>;
          (success_bot_channel, gw4, g4) = reset_bot_news_channel gw3 g3
      in ((success_prefix, success_pagination, success_autodaily, success_bot_channel),
          gw4, g4))"

section \<open>GuildSettingsCollection\<close>

type_synonym GuildSettingsCollection = "int \<rightharpoonup> GuildSettings"

definition create_guild_settings ::
  "Bot \<Rightarrow> gateway \<Rightarrow> GuildSettingsCollection \<Rightarrow> int \<Rightarrow>
   bool \<times> gateway \<times> GuildSettingsCollection" where
  "create_guild_settings client gw data guild_id =
     (let (success, gw1) = db_create_server_settings gw guild_id
      in if success
         then (let (new_server_settings, gw2) = db_get_server_settings gw1 (Some guild_id) []
               in case new_server_settings of
                    r # _ \<Rightarrow> (success, gw2, data(guild_id \<mapsto> GuildSettings_init client r))
                  | [] \<Rightarrow> (False, gw2, data))
         else (success, gw1, data))"

definition delete_guild_settings ::
  "gateway \<Rightarrow> GuildSettingsCollection \<Rightarrow> int \<Rightarrow> bool \<times> gateway \<times> GuildSettingsCollection" where
  "delete_guild_settings gw data guild_id =
     (let (success, gw1) = db_delete_server_settings gw guild_id
      in (success, gw1,
          if success \<and> data guild_id \<noteq> None then data(guild_id := None) else data))"

text \<open>
  \<^verbatim>\<open>get\<close>: the outcome of \<^verbatim>\<open>create_guild_settings\<close> is not looked at, and the subscript
  \<^verbatim>\<open>self.__data[guild_id]\<close> raises \<^verbatim>\<open>KeyError\<close> for a key that is not there.
\<close>

definition get ::
  "Bot \<Rightarrow> gateway \<Rightarrow> GuildSettingsCollection \<Rightarrow> int \<Rightarrow>
   (py_error + GuildSettings) \<times> gateway \<times> GuildSettingsCollection" where
  "get client gw data guild_id =
     (let (gw1, data1) =
            (if data guild_id = None
             then (let (success, gw', data') = create_guild_settings client gw data guild_id
                   in (gw', data'))
             else (gw, data))
      in case data1 guild_id of
           None \<Rightarrow> (Inl KeyError, gw1, data1)
         | Some g \<Rightarrow> (Inr g, gw1, data1))"

section \<open>Properties\<close>

text \<open>
  \<open>outcome gw i\<close> is the outcome the gateway has in store for the call after the next
  \<open>i\<close> ones, \<open>written gw stmt\<close> is the gateway after \<^verbatim>\<open>try_execute\<close> has been handed
  \<open>stmt\<close>, and \<open>after_read gw\<close> is the gateway after a call of \<^verbatim>\<open>fetchall\<close>.
\<close>

definition outcome :: "gateway \<Rightarrow> nat \<Rightarrow> bool" where
  "outcome gw i = (if i < length (script gw) then script gw ! i else True)"

definition written :: "gateway \<Rightarrow> statement \<Rightarrow> gateway" where
  "written gw stmt =
     gw\<lparr>script := tl (script gw),
        executed := executed gw @ [stmt],
        serversettings :=
          (if outcome gw 0 then snd (apply_statement stmt (serversettings gw))
           else serversettings gw)\<rparr>"

definition after_read :: "gateway \<Rightarrow> gateway" where
  "after_read gw = gw\<lparr>script := tl (script gw)\<rparr>"

text \<open>
  Concrete inputs at which the theorems below are exercised: a guild, two channels, two
  time stamps of the same day, entities, and gateways.
\<close>

definition guild1 :: Guild where
  "guild1 = \<lparr>guild_ident = 1, guild_members = [10, 11], guild_roles = [20]\<rparr>"

definition channel5 :: TextChannel where
  "channel5 = \<lparr>channel_id = 5, channel_name = ''daily''\<rparr>"

definition channel6 :: TextChannel where
  "channel6 = \<lparr>channel_id = 6, channel_name = ''news''\<rparr>"

definition bot1 :: Bot where
  "bot1 = \<lparr>bot_channels = [channel5, channel6], bot_guilds = [guild1]\<rparr>"

definition morning :: datetime where
  "morning = \<lparr>year = 2021, month = 3, day = 14, hour = 8, minute = 0, second = 0,
              microsecond = 0\<rparr>"

definition noon :: datetime where
  "noon = \<lparr>year = 2021, month = 3, day = 14, hour = 12, minute = 0, second = 0,
           microsecond = 0\<rparr>"

definition evening :: datetime where
  "evening = \<lparr>year = 2021, month = 3, day = 14, hour = 20, minute = 0, second = 0,
              microsecond = 0\<rparr>"

definition autodaily0 :: AutoDailySettings where
  "autodaily0 = AutoDailySettings_init (Some guild1) None None None None None None None"

definition autodaily1 :: AutoDailySettings where
  "autodaily1 =
     AutoDailySettings_init (Some guild1) (Some channel5) (Some True) (Some 7) (Some EDIT)
       (Some (Member 10)) (Some morning) (Some noon)"

definition gateway0 :: gateway where
  "gateway0 = \<lparr>serversettings = [], script = [], executed = []\<rparr>"

definition app_settings0 :: app_settings where
  "app_settings0 = \<lparr>DEFAULT_PREFIX = ''/'', DEFAULT_USE_EMOJI_PAGINATOR = True\<rparr>"

text \<open>
  A table with one record, the entity built from it, and a gateway holding the table
  whose second call fails.
\<close>

definition row1 :: row where
  "row1 =
     [(COLUMN_NAME_GUILD_ID, VInt 1),
      (COLUMN_NAME_PREFIX, VText ''!''),
      (COLUMN_NAME_USE_PAGINATION, VBool False),
      (COLUMN_NAME_DAILY_CAN_POST, VBool True),
      (COLUMN_NAME_DAILY_CHANNEL_ID, VInt 5),
      (COLUMN_NAME_DAILY_LATEST_MESSAGE_ID, VInt 7),
      (COLUMN_NAME_DAILY_CHANGE_MODE, VInt 3),
      (COLUMN_NAME_DAILY_NOTIFY_ID, VInt 10),
      (COLUMN_NAME_DAILY_NOTIFY_TYPE, VInt 1),
      (COLUMN_NAME_DAILY_LATEST_MESSAGE_CREATED_AT, VTimestamp morning),
      (COLUMN_NAME_DAILY_LATEST_MESSAGE_MODIFIED_AT, VTimestamp noon),
      (COLUMN_NAME_BOT_NEWS_CHANNEL_ID, VInt 6)]"

definition guildsettings1 :: GuildSettings where
  "guildsettings1 = GuildSettings_init bot1 row1"

definition gateway1 :: gateway where
  "gateway1 = \<lparr>serversettings = [row1], script = [], executed = []\<rparr>"

definition gateway2 :: gateway where
  "gateway2 = \<lparr>serversettings = [row1], script = [True, False, True, True], executed = []\<rparr>"

definition gateway3 :: gateway where
  "gateway3 = \<lparr>serversettings = [], script = [True, False], executed = []\<rparr>"

definition message7 :: Message where
  "message7 = \<lparr>message_id = 7, created_at = morning, edited_at = Some evening\<rparr>"

definition message8 :: Message where
  "message8 = \<lparr>message_id = 8, created_at = noon, edited_at = Some evening\<rparr>"

text \<open>
  The prefix stored for a guild: the prefix column of its first record, null when it has
  no record.
\<close>

definition stored_prefix :: "gateway \<Rightarrow> int \<Rightarrow> val" where
  "stored_prefix gw guild_id =
     (case filter (has_guild_id guild_id) (serversettings gw) of
        [] \<Rightarrow> VNull
      | r # _ \<Rightarrow> row_get r COLUMN_NAME_PREFIX)"

definition gateway4 :: gateway where
  "gateway4 =
     \<lparr>serversettings = [update_row [(COLUMN_NAME_PREFIX, VText [])] row1], script = [],
      executed = []\<rparr>"

subsection \<open>Writes through the gateway\<close>

lemmas column_names =
  COLUMN_NAME_GUILD_ID_def COLUMN_NAME_DAILY_CAN_POST_def COLUMN_NAME_DAILY_CHANNEL_ID_def
  COLUMN_NAME_DAILY_LATEST_MESSAGE_ID_def COLUMN_NAME_USE_PAGINATION_def
  COLUMN_NAME_PREFIX_def COLUMN_NAME_DAILY_CHANGE_MODE_def COLUMN_NAME_DAILY_NOTIFY_ID_def
  COLUMN_NAME_DAILY_NOTIFY_TYPE_def COLUMN_NAME_DAILY_LATEST_MESSAGE_CREATED_AT_def
  COLUMN_NAME_DAILY_LATEST_MESSAGE_MODIFIED_AT_def COLUMN_NAME_BOT_NEWS_CHANNEL_ID_def

lemma try_execute_written:
  "try_execute gw stmt =
     (outcome gw 0 \<and> fst (apply_statement stmt (serversettings gw)), written gw stmt)"
  by (cases "script gw")
     (auto simp: try_execute_def next_outcome_def outcome_def written_def Let_def
           split: prod.splits)

lemma update_written:
  "settings \<noteq> [] \<Longrightarrow>
   db_update_server_settings gw gid settings = (outcome gw 0, written gw (UPDATE settings gid))"
  by (cases gid) (simp_all add: db_update_server_settings_def try_execute_written)

lemma outcome_written [simp]: "outcome (written gw stmt) i = outcome gw (Suc i)"
  by (cases "script gw") (auto simp: outcome_def written_def)

lemma executed_written [simp]: "executed (written gw stmt) = executed gw @ [stmt]"
  by (simp add: written_def)

lemma outcome_gateway0 [simp]: "outcome gateway0 i"
  by (simp add: outcome_def gateway0_def)

lemma row1_values:
  "get_int row1 COLUMN_NAME_GUILD_ID = Some 1"
  "get_text row1 COLUMN_NAME_PREFIX = Some ''!''"
  "get_bool row1 COLUMN_NAME_USE_PAGINATION = Some False"
  "get_bool row1 COLUMN_NAME_DAILY_CAN_POST = Some True"
  "get_int row1 COLUMN_NAME_DAILY_CHANNEL_ID = Some 5"
  "get_int row1 COLUMN_NAME_DAILY_LATEST_MESSAGE_ID = Some 7"
  "get_int row1 COLUMN_NAME_DAILY_CHANGE_MODE = Some 3"
  "get_int row1 COLUMN_NAME_DAILY_NOTIFY_ID = Some 10"
  "get_int row1 COLUMN_NAME_DAILY_NOTIFY_TYPE = Some 1"
  "get_timestamp row1 COLUMN_NAME_DAILY_LATEST_MESSAGE_CREATED_AT = Some morning"
  "get_timestamp row1 COLUMN_NAME_DAILY_LATEST_MESSAGE_MODIFIED_AT = Some noon"
  "get_int row1 COLUMN_NAME_BOT_NEWS_CHANNEL_ID = Some 6"
  by (simp_all add: row1_def get_int_def get_text_def get_bool_def get_timestamp_def
                    row_get_def column_names)

lemma guildsettings1_fields:
  "gs_guild_id guildsettings1 = Some 1"
  "gs_prefix guildsettings1 = Some ''!''"
  "gs_use_pagination guildsettings1 = Some False"
  "gs_bot_news_channel_id guildsettings1 = Some 6"
  "gs_autodaily guildsettings1 = autodaily1"
  by (simp_all add: guildsettings1_def GuildSettings_init_def row1_values Let_def
                    autodaily1_def get_channel_def get_guild_def bot1_def guild1_def
                    channel5_def channel6_def convert_to_autodaily_notify_type_def
                    USER_def ROLE_def EDIT_def get_member_def)

lemma autodaily1_fields:
  "guild_id_of autodaily1 = Some 1"
  "channel_id_of autodaily1 = Some 5"
  "ads_change_mode autodaily1 = EDIT"
  "ads_latest_message_id autodaily1 = Some 7"
  "ads_latest_message_created_at autodaily1 = Some morning"
  "ads_latest_message_modified_at autodaily1 = Some noon"
  "notify_id autodaily1 = Some 10"
  by (simp_all add: autodaily1_def AutoDailySettings_init_def guild_id_of_def channel_id_of_def
                    notify_id_def guild1_def channel5_def EDIT_def)

lemma row1_guild: "has_guild_id 1 row1"
  by (simp add: has_guild_id_def row_get_def row1_def column_names)

lemma gateway1_fields:
  "outcome gateway1 i" "serversettings gateway1 = [row1]" "executed gateway1 = []"
  by (simp_all add: outcome_def gateway1_def)

lemma key_in_settings: "(k \<in> set (map fst settings)) = (map_of settings k \<noteq> None)"
  by (simp add: map_of_eq_None_iff)

lemma next_outcome_eq: "next_outcome gw = (outcome gw 0, after_read gw)"
  by (cases "script gw") (simp_all add: next_outcome_def outcome_def after_read_def)

lemma after_read_simps [simp]:
  "outcome (after_read gw) i = outcome gw (Suc i)"
  "serversettings (after_read gw) = serversettings gw"
  "executed (after_read gw) = executed gw"
  by (cases "script gw"; simp add: outcome_def after_read_def)+

lemma serversettings_written [simp]:
  "serversettings (written gw stmt) =
     (if outcome gw 0 then snd (apply_statement stmt (serversettings gw))
      else serversettings gw)"
  by (simp add: written_def)

lemma fetchall_eq:
  "fetchall gw columns (Some g) =
     (if outcome gw 0
      then map (\<lambda>r. if columns = [] then r else map (\<lambda>k. (k, row_get r k)) columns)
             (filter (has_guild_id g) (serversettings gw))
      else [],
      after_read gw)"
  by (simp add: fetchall_def next_outcome_eq Let_def)

lemma list_ex_filter: "list_ex P xs = (filter P xs \<noteq> [])"
  by (induction xs) simp_all

lemma has_guild_id_new_row [simp]: "has_guild_id g (new_row g cm)"
  by (simp add: has_guild_id_def new_row_def row_get_def column_names)

lemma new_row_values:
  "get_text (new_row g cm) COLUMN_NAME_PREFIX = None"
  "get_int (new_row g cm) COLUMN_NAME_DAILY_CHANGE_MODE = Some cm"
  "row_get (new_row g cm) COLUMN_NAME_PREFIX = VNull"
  "row_get (new_row g cm) COLUMN_NAME_DAILY_CHANGE_MODE = VInt cm"
  by (simp_all add: get_text_def get_int_def row_get_def new_row_def column_names)

lemma GuildSettings_init_new_row:
  "gs_prefix (GuildSettings_init client (new_row g cm)) = None"
  "ads_change_mode (gs_autodaily (GuildSettings_init client (new_row g POST_NEW))) = POST_NEW"
  by (simp_all add: GuildSettings_init_def new_row_values AutoDailySettings_init_def Let_def
                    POST_NEW_def)

lemma AutoDailySettings_reset_step:
  "AutoDailySettings_reset gw s =
     (outcome gw 0,
      written gw
        (UPDATE [(COLUMN_NAME_DAILY_CHANNEL_ID, VNull),
                 (COLUMN_NAME_DAILY_LATEST_MESSAGE_ID, VNull),
                 (COLUMN_NAME_DAILY_CHANGE_MODE, VInt DEFAULT_AUTODAILY_CHANGE_MODE),
                 (COLUMN_NAME_DAILY_NOTIFY_ID, VNull),
                 (COLUMN_NAME_DAILY_NOTIFY_TYPE, VNull),
                 (COLUMN_NAME_DAILY_LATEST_MESSAGE_CREATED_AT, VNull),
                 (COLUMN_NAME_DAILY_LATEST_MESSAGE_MODIFIED_AT, VNull)]
           (guild_id_of s)),
      if outcome gw 0
      then s\<lparr>ads_channel := None, ads_delete_on_change := None, ads_notify := None,
             ads_latest_message_id := None, ads_latest_message_created_at := None,
             ads_latest_message_modified_at := None\<rparr>
      else s)"
  by (simp add: AutoDailySettings_reset_def update_written)

subsection \<open>The pagination switch\<close>

text \<open>
  C9. Read case-insensitively, each token that stands for "on" goes through
  \<^verbatim>\<open>convert_from_on_off\<close> and \<^verbatim>\<open>convert_to_on_off\<close> to \<^verbatim>\<open>ON\<close>, each token that stands for
  "off" to \<^verbatim>\<open>OFF\<close>; for any other string \<^verbatim>\<open>convert_from_on_off\<close> answers \<^verbatim>\<open>None\<close>, raising
  nothing, and \<^verbatim>\<open>convert_to_on_off\<close> of that is \<^verbatim>\<open><NOT SET>\<close>.
\<close>

theorem convert_on_off_round_trip:
  "(lower token \<in> {''on'', ''true'', ''1'', ''yes'', thumbs_up} \<longrightarrow>
      convert_from_on_off (Some token) = Some True
      \<and> convert_to_on_off (convert_from_on_off (Some token)) = ''ON'')
   \<and> (lower token \<in> {''off'', ''false'', ''0'', ''no'', thumbs_down} \<longrightarrow>
      convert_from_on_off (Some token) = Some False
      \<and> convert_to_on_off (convert_from_on_off (Some token)) = ''OFF'')
   \<and> (lower token \<notin> {''on'', ''true'', ''1'', ''yes'', thumbs_up,
                       ''off'', ''false'', ''0'', ''no'', thumbs_down} \<longrightarrow>
      convert_from_on_off (Some token) = None
      \<and> convert_to_on_off (convert_from_on_off (Some token)) = ''<NOT SET>'')"
  by (auto simp: convert_from_on_off_def convert_to_on_off_def
                 VALID_PAGINATION_SWITCH_VALUES_def thumbs_up_def thumbs_down_def)

theorem convert_on_off_round_trip_witness:
  "convert_to_on_off (convert_from_on_off (Some ''on'')) = ''ON''
   \<and> convert_to_on_off (convert_from_on_off (Some ''ON'')) = ''ON''
   \<and> convert_to_on_off (convert_from_on_off (Some ''1'')) = ''ON''
   \<and> convert_to_on_off (convert_from_on_off (Some ''yes'')) = ''ON''
   \<and> convert_to_on_off (convert_from_on_off (Some thumbs_up)) = ''ON''
   \<and> convert_to_on_off (convert_from_on_off (Some ''off'')) = ''OFF''
   \<and> convert_to_on_off (convert_from_on_off (Some ''0'')) = ''OFF''
   \<and> convert_to_on_off (convert_from_on_off (Some ''No'')) = ''OFF''
   \<and> convert_to_on_off (convert_from_on_off (Some thumbs_down)) = ''OFF''
   \<and> convert_from_on_off (Some ''maybe'') = None
   \<and> convert_to_on_off (convert_from_on_off (Some ''maybe'')) = ''<NOT SET>''"
  using convert_on_off_round_trip [of "''on''"] convert_on_off_round_trip [of "''ON''"]
    convert_on_off_round_trip [of "''1''"] convert_on_off_round_trip [of "''yes''"]
    convert_on_off_round_trip [of thumbs_up] convert_on_off_round_trip [of "''off''"]
    convert_on_off_round_trip [of "''0''"] convert_on_off_round_trip [of "''No''"]
    convert_on_off_round_trip [of thumbs_down] convert_on_off_round_trip [of "''maybe''"]
  by (simp add: lower_def lower_char_def thumbs_up_def thumbs_down_def convert_to_on_off_def)

subsection \<open>The change mode\<close>

lemma AutoDailyChangeMode_next:
  "AutoDailyChangeMode (n mod 3 + 1) = Inr (n mod 3 + 1)"
proof -
  have "n mod 3 + 1 = 1 \<or> n mod 3 + 1 = 2 \<or> n mod 3 + 1 = 3"
    by presburger
  then show ?thesis
    unfolding AutoDailyChangeMode_def POST_NEW_def DELETE_AND_POST_NEW_def EDIT_def
    by simp
qed

lemma toggle_change_mode_step:
  "toggle_change_mode gw s =
     (Inr (outcome gw 0),
      written gw (UPDATE [(COLUMN_NAME_DAILY_CHANGE_MODE, VInt (ads_change_mode s mod 3 + 1))]
                    (guild_id_of s)),
      if outcome gw 0 then s\<lparr>ads_change_mode := ads_change_mode s mod 3 + 1\<rparr> else s)"
  by (simp add: toggle_change_mode_def AutoDailyChangeMode_next update_written Let_def)

text \<open>
  C4. From each of the three change modes \<^verbatim>\<open>toggle_change_mode\<close>, its write succeeding,
  moves to \<open>(current mod 3) + 1\<close>, which is the next mode of the cycle POST_NEW,
  DELETE_AND_POST_NEW, EDIT, POST_NEW; the mode stays among the three; every call issues
  one write; and three calls in a row give back the entity they started from.
\<close>

theorem toggle_change_mode_cycle:
  assumes mode: "ads_change_mode s = POST_NEW \<or> ads_change_mode s = DELETE_AND_POST_NEW
                 \<or> ads_change_mode s = EDIT"
      and ok: "outcome gw 0 \<and> outcome gw 1 \<and> outcome gw 2"
  shows "case toggle_change_mode gw s of (r1, gw1, s1) \<Rightarrow>
         case toggle_change_mode gw1 s1 of (r2, gw2, s2) \<Rightarrow>
         case toggle_change_mode gw2 s2 of (r3, gw3, s3) \<Rightarrow>
           r1 = Inr True \<and> r2 = Inr True \<and> r3 = Inr True
           \<and> ads_change_mode s1 = ads_change_mode s mod 3 + 1
           \<and> ads_change_mode s1 =
               (if ads_change_mode s = POST_NEW then DELETE_AND_POST_NEW
                else if ads_change_mode s = DELETE_AND_POST_NEW then EDIT
                else POST_NEW)
           \<and> ads_change_mode s1 \<in> {POST_NEW, DELETE_AND_POST_NEW, EDIT}
           \<and> ads_change_mode s2 \<in> {POST_NEW, DELETE_AND_POST_NEW, EDIT}
           \<and> ads_change_mode s3 \<in> {POST_NEW, DELETE_AND_POST_NEW, EDIT}
           \<and> s3 = s
           \<and> length (executed gw3) = length (executed gw) + 3"
proof -
  have round: "s\<lparr>ads_change_mode := ((ads_change_mode s mod 3 + 1) mod 3 + 1) mod 3 + 1\<rparr> = s"
    using mode by (cases s) (auto simp: POST_NEW_def DELETE_AND_POST_NEW_def EDIT_def)
  show ?thesis
    using mode ok round
    by (auto simp: toggle_change_mode_step numeral_2_eq_2 POST_NEW_def DELETE_AND_POST_NEW_def
                   EDIT_def)
qed

theorem toggle_change_mode_cycle_witness:
  "(ads_change_mode autodaily0 = POST_NEW
    \<and> outcome gateway0 0 \<and> outcome gateway0 1 \<and> outcome gateway0 2) \<and>
   (case toggle_change_mode gateway0 autodaily0 of (r1, gw1, s1) \<Rightarrow>
    case toggle_change_mode gw1 s1 of (r2, gw2, s2) \<Rightarrow>
    case toggle_change_mode gw2 s2 of (r3, gw3, s3) \<Rightarrow>
      r1 = Inr True \<and> r2 = Inr True \<and> r3 = Inr True
      \<and> ads_change_mode s1 = ads_change_mode autodaily0 mod 3 + 1
      \<and> ads_change_mode s1 =
          (if ads_change_mode autodaily0 = POST_NEW then DELETE_AND_POST_NEW
           else if ads_change_mode autodaily0 = DELETE_AND_POST_NEW then EDIT
           else POST_NEW)
      \<and> ads_change_mode s1 \<in> {POST_NEW, DELETE_AND_POST_NEW, EDIT}
      \<and> ads_change_mode s2 \<in> {POST_NEW, DELETE_AND_POST_NEW, EDIT}
      \<and> ads_change_mode s3 \<in> {POST_NEW, DELETE_AND_POST_NEW, EDIT}
      \<and> s3 = autodaily0
      \<and> length (executed gw3) = length (executed gateway0) + 3)"
proof -
  have mode: "ads_change_mode autodaily0 = POST_NEW"
    by (simp add: autodaily0_def AutoDailySettings_init_def)
  have ok: "outcome gateway0 0 \<and> outcome gateway0 1 \<and> outcome gateway0 2"
    by simp
  have hyps: "ads_change_mode autodaily0 = POST_NEW
              \<and> outcome gateway0 0 \<and> outcome gateway0 1 \<and> outcome gateway0 2"
    using mode ok by simp
  show ?thesis
    by (rule conjI [OF hyps toggle_change_mode_cycle [OF disjI1 [OF mode] ok]])
qed

subsection \<open>The channel of the daily announcement\<close>

text \<open>
  C8. \<^verbatim>\<open>set_channel(c)\<close> called twice in a row, the write of the first call succeeding if
  one is issued: both calls answer \<^verbatim>\<open>True\<close>, the second call does not touch the gateway,
  at most one write is issued in all, and the entity after the second call is the entity
  after the first. A channel is an object of the chat platform, whose identifiers are
  snowflakes and never 0; 0 is the one identifier that \<^verbatim>\<open>not self.channel_id\<close> takes for
  "no channel set".
\<close>

theorem set_channel_idempotent:
  assumes nonzero: "channel_id c \<noteq> 0"
      and ok: "outcome gw 0"
  shows "case set_channel gw s c of (r1, gw1, s1) \<Rightarrow>
         case set_channel gw1 s1 c of (r2, gw2, s2) \<Rightarrow>
           r1 \<and> r2 \<and> s2 = s1 \<and> gw2 = gw1
           \<and> channel_id_of s1 = Some (channel_id c)
           \<and> length (executed gw2) \<le> length (executed gw) + 1"
  using assms
  by (cases "ads_channel s")
     (auto simp: set_channel_def update_written channel_id_of_def split: prod.splits)

theorem set_channel_idempotent_witness:
  "(channel_id channel5 \<noteq> 0 \<and> outcome gateway0 0) \<and>
   (case set_channel gateway0 autodaily0 channel5 of (r1, gw1, s1) \<Rightarrow>
    case set_channel gw1 s1 channel5 of (r2, gw2, s2) \<Rightarrow>
      r1 \<and> r2 \<and> s2 = s1 \<and> gw2 = gw1
      \<and> channel_id_of s1 = Some (channel_id channel5)
      \<and> length (executed gw2) \<le> length (executed gateway0) + 1)"
proof -
  have nonzero: "channel_id channel5 \<noteq> 0"
    by (simp add: channel5_def)
  have ok: "outcome gateway0 0"
    by simp
  show ?thesis
    by (rule conjI [OF conjI [OF nonzero ok] set_channel_idempotent [OF nonzero ok]])
qed

subsection \<open>The latest message\<close>

text \<open>
  C1, as the claim states it, fails when the message recorded is the message already
  stored. The entity \<open>autodaily1\<close> holds message 7, created and last modified on the 14th;
  \<open>message7\<close> is that message, created on the 14th and edited later that day. The edit time
  differs from the stored one, yet the call writes nothing and the stored time stays.
\<close>

theorem set_latest_message_counterexample:
  "day (created_at message7) = 14
   \<and> map_option day (ads_latest_message_created_at autodaily1) = Some 14
   \<and> edited_at message7 = Some evening
   \<and> ads_latest_message_modified_at autodaily1 = Some noon
   \<and> evening \<noteq> noon
   \<and> set_latest_message gateway1 autodaily1 (Some message7) = (True, gateway1, autodaily1)"
  by (simp add: set_latest_message_def latest_message_settings_def autodaily1_fields
                is_new_day_def message7_def morning_def evening_def noon_def Let_def)

text \<open>
  C1, amended. Recording a message whose identifier is the stored one (and not 0) writes
  nothing, answers \<^verbatim>\<open>True\<close> and leaves the entity alone, whatever its time stamps. Any
  other message issues one write and the call answers what the gateway answers; a failed
  write leaves the entity alone, and a successful one stores the identifier and, when the
  stored creation time is null or of another day of the month than the message's, both
  times become the message's creation time; on the same day of the month the creation
  time stays and the modification time becomes the message's edit time, or its creation
  time if it was never edited.
\<close>

theorem set_latest_message_merge:
  "case set_latest_message gw s (Some m) of (r, gw', s') \<Rightarrow>
     (if ads_latest_message_id s = Some (message_id m) \<and> message_id m \<noteq> 0
      then r \<and> gw' = gw \<and> s' = s
      else r = outcome gw 0
           \<and> length (executed gw') = length (executed gw) + 1
           \<and> (if r
               then ads_latest_message_id s' = Some (message_id m)
                    \<and> (if (case ads_latest_message_created_at s of
                              None \<Rightarrow> True
                            | Some stored \<Rightarrow> day (created_at m) \<noteq> day stored)
                        then ads_latest_message_created_at s' = Some (created_at m)
                             \<and> ads_latest_message_modified_at s' = Some (created_at m)
                        else ads_latest_message_created_at s' = ads_latest_message_created_at s
                             \<and> ads_latest_message_modified_at s' =
                                 Some (case edited_at m of
                                         Some e \<Rightarrow> e
                                       | None \<Rightarrow> created_at m))
               else s' = s))"
  unfolding set_latest_message_def key_in_settings
  by (cases "ads_latest_message_id s"; cases "ads_latest_message_created_at s")
     (simp_all add: latest_message_settings_def is_new_day_def
                    update_written setting_int_def setting_timestamp_def column_names Let_def)

theorem set_latest_message_merge_witness:
  "case set_latest_message gateway1 autodaily1 (Some message8) of (r, gw', s') \<Rightarrow>
     r \<and> length (executed gw') = 1
     \<and> ads_latest_message_id s' = Some 8
     \<and> ads_latest_message_created_at s' = Some morning
     \<and> ads_latest_message_modified_at s' = Some evening"
  using set_latest_message_merge [where gw = gateway1 and s = autodaily1 and m = message8]
  by (simp add: autodaily1_fields gateway1_fields message8_def morning_def noon_def
           split: prod.splits)

subsection \<open>The notify target\<close>

text \<open>
  C6, as the claim states it, fails at the argument \<^verbatim>\<open>None\<close>, which is neither a user nor
  a role: the call raises nothing, writes nothing and answers \<^verbatim>\<open>False\<close>.
\<close>

theorem set_notify_None_counterexample:
  "set_notify gateway0 autodaily0 None = (Inr False, gateway0, autodaily0)
   \<and> fst (set_notify gateway0 autodaily0 None) \<noteq> Inl TypeError
   \<and> fst (set_notify gateway0 autodaily0 None) \<noteq> Inr True
   \<and> executed (fst (snd (set_notify gateway0 autodaily0 None))) = executed gateway0"
  by (simp add: set_notify_def)

text \<open>
  C6, amended. \<^verbatim>\<open>set_notify(None)\<close> answers \<^verbatim>\<open>False\<close> and neither writes nor raises. An
  argument that is neither a user, a member nor a role raises \<^verbatim>\<open>TypeError\<close> before any
  write. For a user, a member or a role: when its identifier is the current notify
  identifier (and not 0) the call answers \<^verbatim>\<open>True\<close> and writes nothing; otherwise it
  issues one statement setting the notify identifier and the notify type (ROLE for a
  role, USER for a user or member), answers what the gateway answers, and on success
  makes the argument the notify target of the entity.
\<close>

theorem set_notify_cases:
  "set_notify gw s None = (Inr False, gw, s)
   \<and> set_notify gw s (Some (Other i)) = (Inl TypeError, gw, s)
   \<and> (let same = (notify_id s = Some i \<and> i \<noteq> 0);
           write = (\<lambda>n kind.
             (Inr (outcome gw 0),
              written gw (UPDATE [(COLUMN_NAME_DAILY_NOTIFY_ID, VInt i),
                                  (COLUMN_NAME_DAILY_NOTIFY_TYPE, VInt kind)]
                            (guild_id_of s)),
              if outcome gw 0 then s\<lparr>ads_notify := Some n\<rparr> else s))
       in set_notify gw s (Some (Role i)) =
            (if same then (Inr True, gw, s) else write (Role i) ROLE)
          \<and> set_notify gw s (Some (Member i)) =
            (if same then (Inr True, gw, s) else write (Member i) USER)
          \<and> set_notify gw s (Some (User i)) =
            (if same then (Inr True, gw, s) else write (User i) USER))"
  by (cases "notify_id s")
     (auto simp: set_notify_def update_written convert_from_autodaily_notify_type_def
                 ROLE_def USER_def Let_def)

theorem set_notify_cases_witness:
  "set_notify gateway1 autodaily1 (Some (Member 10)) = (Inr True, gateway1, autodaily1)
   \<and> fst (set_notify gateway1 autodaily1 (Some (Role 20))) = Inr True
   \<and> executed (fst (snd (set_notify gateway1 autodaily1 (Some (Role 20))))) =
       [UPDATE [(COLUMN_NAME_DAILY_NOTIFY_ID, VInt 20), (COLUMN_NAME_DAILY_NOTIFY_TYPE, VInt 2)]
          (Some 1)]
   \<and> ads_notify (snd (snd (set_notify gateway1 autodaily1 (Some (Role 20))))) = Some (Role 20)
   \<and> fst (set_notify gateway1 autodaily1 (Some (Other 30))) = Inl TypeError"
  using set_notify_cases [where gw = gateway1 and s = autodaily1 and i = 10]
    set_notify_cases [where gw = gateway1 and s = autodaily1 and i = 20]
    set_notify_cases [where gw = gateway1 and s = autodaily1 and i = 30]
  by (simp add: autodaily1_fields gateway1_fields Let_def ROLE_def)

subsection \<open>The cache against the storage\<close>

text \<open>
  C2. Where the claim fails on the code. The entity \<open>autodaily1\<close> is the one built from
  the only record of the table of \<open>gateway1\<close>, with change mode EDIT and latest message 7.
  A successful \<^verbatim>\<open>reset\<close> writes POST_NEW into the column and leaves the change mode of the
  entity at EDIT (it assigns \<^verbatim>\<open>__delete_on_change\<close>, which nothing reads); a successful
  \<^verbatim>\<open>set_channel\<close> to another channel clears the column of the latest message and leaves
  the latest message of the entity at 7.
\<close>

theorem cache_differs_from_storage:
  "(case AutoDailySettings_reset gateway1 autodaily1 of (success, gw', s') \<Rightarrow>
      success
      \<and> map (\<lambda>r. row_get r COLUMN_NAME_DAILY_CHANGE_MODE) (serversettings gw') = [VInt POST_NEW]
      \<and> ads_change_mode s' = EDIT)
   \<and> (case set_channel gateway1 autodaily1 channel6 of (success, gw', s') \<Rightarrow>
      success
      \<and> map (\<lambda>r. row_get r COLUMN_NAME_DAILY_LATEST_MESSAGE_ID) (serversettings gw') = [VNull]
      \<and> ads_latest_message_id s' = Some 7)"
  by (simp add: AutoDailySettings_reset_step set_channel_def update_written autodaily1_fields
                gateway1_fields written_def has_guild_id_def update_row_def row_get_def row1_def
                column_names channel6_def DEFAULT_AUTODAILY_CHANGE_MODE_def)

theorem cache_differs_from_storage_witness:
  "ads_change_mode (snd (snd (AutoDailySettings_reset gateway1 autodaily1))) \<noteq> POST_NEW
   \<and> ads_latest_message_id (snd (snd (set_channel gateway1 autodaily1 channel6))) \<noteq> None"
  using cache_differs_from_storage
  by (simp add: EDIT_def POST_NEW_def split: prod.splits)

subsection \<open>The compound reset\<close>

lemma reset_prefix_step:
  "reset_prefix gw g =
     (if truthy_str (gs_prefix g)
      then (outcome gw 0, written gw (UPDATE [(COLUMN_NAME_PREFIX, VNull)] (gs_guild_id g)),
            if outcome gw 0 then g\<lparr>gs_prefix := None\<rparr> else g)
      else (True, gw, g))"
  by (simp add: reset_prefix_def update_written)

lemma reset_use_pagination_step:
  "reset_use_pagination gw g =
     (if gs_use_pagination g \<noteq> None
      then (outcome gw 0,
            written gw (UPDATE [(COLUMN_NAME_USE_PAGINATION, VNull)] (gs_guild_id g)),
            if outcome gw 0 then g\<lparr>gs_use_pagination := None\<rparr> else g)
      else (True, gw, g))"
  by (simp add: reset_use_pagination_def update_written)

lemma reset_bot_news_channel_step:
  "reset_bot_news_channel gw g =
     (if truthy_int (gs_bot_news_channel_id g)
      then (outcome gw 0,
            written gw (UPDATE [(COLUMN_NAME_BOT_NEWS_CHANNEL_ID, VNull)] (gs_guild_id g)),
            if outcome gw 0
            then g\<lparr>gs_bot_news_channel_id := None, gs_bot_news_channel := None\<rparr>
            else g)
      else (True, gw, g))"
  by (simp add: reset_bot_news_channel_def update_written)

text \<open>
  C7. \<^verbatim>\<open>GuildSettings.reset\<close> runs the four resets one after the other, whatever the
  earlier ones answered. Each component of the tuple is the answer of its own reset, and
  that answer is the one the reset gives on the entity as it was before the compound
  reset, on the gateway as the earlier resets left it. A reset that has something to
  clear issues one write and answers what the gateway answers to that write; one that
  has nothing to clear answers \<^verbatim>\<open>True\<close>. Each part of the entity is cleared exactly
  when its own write succeeded.
\<close>

theorem GuildSettings_reset_outcomes:
  "case GuildSettings_reset gw g of ((p, u, a, b), gw', g') \<Rightarrow>
     (let w1 = truthy_str (gs_prefix g);
          w2 = (gs_use_pagination g \<noteq> None);
          w4 = truthy_int (gs_bot_news_channel_id g);
          i2 = (if w1 then 1 else 0);
          i3 = i2 + (if w2 then 1 else 0);
          i4 = Suc i3;
          gw1 = fst (snd (reset_prefix gw g));
          gw2 = fst (snd (reset_use_pagination gw1 g));
          gw3 = fst (snd (AutoDailySettings_reset gw2 (gs_autodaily g)))
      in p = fst (reset_prefix gw g)
         \<and> u = fst (reset_use_pagination gw1 g)
         \<and> a = fst (AutoDailySettings_reset gw2 (gs_autodaily g))
         \<and> b = fst (reset_bot_news_channel gw3 g)
         \<and> p = (if w1 then outcome gw 0 else True)
         \<and> u = (if w2 then outcome gw i2 else True)
         \<and> a = outcome gw i3
         \<and> b = (if w4 then outcome gw i4 else True)
         \<and> gs_prefix g' = (if w1 \<and> p then None else gs_prefix g)
         \<and> gs_use_pagination g' = (if u then None else gs_use_pagination g)
         \<and> gs_autodaily g' =
             (if a
              then (gs_autodaily g)
                     \<lparr>ads_channel := None, ads_delete_on_change := None, ads_notify := None,
                      ads_latest_message_id := None, ads_latest_message_created_at := None,
                      ads_latest_message_modified_at := None\<rparr>
              else gs_autodaily g)
         \<and> gs_bot_news_channel_id g' = (if w4 \<and> b then None else gs_bot_news_channel_id g)
         \<and> length (executed gw') = length (executed gw) + i4 + (if w4 then 1 else 0))"
  by (cases "truthy_str (gs_prefix g)"; cases "gs_use_pagination g = None";
      cases "truthy_int (gs_bot_news_channel_id g)")
     (simp_all add: GuildSettings_reset_def reset_prefix_step reset_use_pagination_step
                    AutoDailySettings_reset_step reset_bot_news_channel_step Let_def)

text \<open>
  The second reset failing at the gateway, the three others succeed and the tuple is
  \<^verbatim>\<open>(True, False, True, True)\<close>.
\<close>

theorem GuildSettings_reset_outcomes_witness:
  "case GuildSettings_reset gateway2 guildsettings1 of ((p, u, a, b), gw', g') \<Rightarrow>
     (p, u, a, b) = (True, False, True, True)
     \<and> gs_prefix g' = None
     \<and> gs_use_pagination g' = Some False
     \<and> ads_channel (gs_autodaily g') = None
     \<and> gs_bot_news_channel_id g' = None
     \<and> length (executed gw') = 4"
proof -
  have fields: "gs_prefix guildsettings1 = Some ''!''"
    "gs_use_pagination guildsettings1 = Some False"
    "gs_bot_news_channel_id guildsettings1 = Some 6"
    by (simp_all add: guildsettings1_fields)
  have outcomes: "outcome gateway2 0" "\<not> outcome gateway2 (Suc 0)"
    "outcome gateway2 (Suc (Suc 0))" "outcome gateway2 (Suc (Suc (Suc 0)))"
    "executed gateway2 = []"
    by (simp_all add: outcome_def gateway2_def)
  show ?thesis
    using GuildSettings_reset_outcomes [where gw = gateway2 and g = guildsettings1]
    by (simp add: fields outcomes Let_def numeral_2_eq_2 numeral_3_eq_3 split: prod.splits)
qed

subsection \<open>Lazy materialization\<close>

text \<open>
  C3. For a guild with no entity in the collection and no record in the table, the three
  calls of the gateway succeeding: \<^verbatim>\<open>get\<close> returns an entity, which is now cached; its
  prefix reads as the default prefix and its change mode is POST_NEW; one INSERT was
  issued; and the table holds exactly one record for the guild, the default one, whose
  change mode is POST_NEW and whose other columns are null.
\<close>

theorem get_materializes_default:
  assumes not_cached: "data guild_id = None"
      and not_stored: "filter (has_guild_id guild_id) (serversettings gw) = []"
      and ok: "outcome gw 0 \<and> outcome gw 1 \<and> outcome gw 2"
  shows "case get client gw data guild_id of (r, gw', data') \<Rightarrow>
           (\<exists>g. r = Inr g \<and> data' guild_id = Some g
                \<and> prefix_of cfg g = DEFAULT_PREFIX cfg
                \<and> ads_change_mode (gs_autodaily g) = POST_NEW)
           \<and> executed gw' = executed gw @ [INSERT guild_id POST_NEW]
           \<and> filter (has_guild_id guild_id) (serversettings gw') = [new_row guild_id POST_NEW]
           \<and> row_get (new_row guild_id POST_NEW) COLUMN_NAME_DAILY_CHANGE_MODE = VInt POST_NEW"
  using assms
  by (simp add: get_def create_guild_settings_def db_create_server_settings_def
                db_get_has_settings_def db_get_server_settings_def fetchall_eq
                try_execute_written list_ex_filter prefix_of_def
                GuildSettings_init_new_row new_row_values DEFAULT_AUTODAILY_CHANGE_MODE_def
                numeral_2_eq_2)

theorem get_materializes_default_witness:
  "(Map.empty (1 :: int) = (None :: GuildSettings option)
    \<and> filter (has_guild_id 1) (serversettings gateway0) = []
    \<and> outcome gateway0 0 \<and> outcome gateway0 1 \<and> outcome gateway0 2) \<and>
   (case get bot1 gateway0 Map.empty 1 of (r, gw', data') \<Rightarrow>
      (\<exists>g. r = Inr g \<and> data' 1 = Some g
           \<and> prefix_of app_settings0 g = DEFAULT_PREFIX app_settings0
           \<and> ads_change_mode (gs_autodaily g) = POST_NEW)
      \<and> executed gw' = executed gateway0 @ [INSERT 1 POST_NEW]
      \<and> filter (has_guild_id 1) (serversettings gw') = [new_row 1 POST_NEW]
      \<and> row_get (new_row 1 POST_NEW) COLUMN_NAME_DAILY_CHANGE_MODE = VInt POST_NEW)"
proof -
  have not_cached: "Map.empty (1 :: int) = (None :: GuildSettings option)"
    by simp
  have not_stored: "filter (has_guild_id 1) (serversettings gateway0) = []"
    by (simp add: gateway0_def)
  have ok: "outcome gateway0 0 \<and> outcome gateway0 1 \<and> outcome gateway0 2"
    by simp
  have hyps: "Map.empty (1 :: int) = (None :: GuildSettings option)
    \<and> filter (has_guild_id 1) (serversettings gateway0) = []
    \<and> outcome gateway0 0 \<and> outcome gateway0 1 \<and> outcome gateway0 2"
    using not_cached not_stored ok by simp
  show ?thesis
    by (rule conjI [OF hyps get_materializes_default [OF not_cached not_stored ok]])
qed

subsection \<open>A failed write under \<^verbatim>\<open>get\<close>\<close>

text \<open>
  C5. Where the claim fails on the code. The table of \<open>gateway3\<close> is empty and its second
  call, the INSERT of the default record, fails. \<^verbatim>\<open>create_guild_settings\<close> answers
  \<^verbatim>\<open>False\<close> and caches nothing; \<^verbatim>\<open>get\<close> does not look at that answer and its subscript
  raises \<^verbatim>\<open>KeyError\<close>.
\<close>

theorem get_raises_KeyError:
  "fst (create_guild_settings bot1 gateway3 Map.empty 1) = False
   \<and> fst (get bot1 gateway3 Map.empty 1) = Inl KeyError"
  by (simp add: get_def create_guild_settings_def db_create_server_settings_def
                db_get_has_settings_def db_get_server_settings_def fetchall_def
                try_execute_def next_outcome_def gateway3_def Let_def)

subsection \<open>The prefix of a guild\<close>

text \<open>
  C10, as the claim states it, fails for a stored prefix that is the empty string: it is
  neither null nor "none", and the default prefix is returned in its place.
\<close>

theorem get_prefix_or_default_counterexample:
  "stored_prefix gateway4 1 = VText []
   \<and> fst (get_prefix_or_default app_settings0 gateway4 1) = Inr ''/''"
proof -
  have rows: "serversettings gateway4 = [update_row [(COLUMN_NAME_PREFIX, VText [])] row1]"
    by (simp add: gateway4_def)
  have ok: "outcome gateway4 0" "outcome gateway4 (Suc 0)"
    by (simp_all add: outcome_def gateway4_def)
  show ?thesis
    by (simp add: get_prefix_or_default_def db_get_prefix_def db_create_server_settings_def
                  db_get_has_settings_def db_get_server_settings_def db_get_server_setting_def
                  fetchall_eq stored_prefix_def rows ok has_guild_id_def update_row_def
                  row_get_def row1_def column_names app_settings0_def Let_def)
qed

text \<open>
  C10, amended. The calls of the gateway succeeding, \<^verbatim>\<open>get_prefix_or_default\<close> raises
  nothing and returns the default prefix when the prefix stored for the guild is null
  (also when the guild had no record, one being created), is the empty string, or is
  "none" in any mix of cases; in every other case it returns the stored prefix unchanged.
\<close>

theorem get_prefix_or_default_cases:
  assumes ok: "outcome gw 0 \<and> outcome gw 1 \<and> outcome gw 2"
  shows "fst (get_prefix_or_default cfg gw guild_id) =
           Inr (case stored_prefix gw guild_id of
                  VText p \<Rightarrow> if p = [] \<or> lower p = ''none'' then DEFAULT_PREFIX cfg else p
                | _ \<Rightarrow> DEFAULT_PREFIX cfg)"
proof (cases "filter (has_guild_id guild_id) (serversettings gw)")
  case Nil
  with ok show ?thesis
    by (simp add: get_prefix_or_default_def db_get_prefix_def db_create_server_settings_def
                  db_get_has_settings_def db_get_server_settings_def db_get_server_setting_def
                  fetchall_eq try_execute_written list_ex_filter stored_prefix_def
                  new_row_values numeral_2_eq_2 Let_def)
next
  case (Cons r rs)
  with ok show ?thesis
    by (cases "row_get r COLUMN_NAME_PREFIX")
       (simp_all add: get_prefix_or_default_def db_get_prefix_def db_create_server_settings_def
                      db_get_has_settings_def db_get_server_settings_def
                      db_get_server_setting_def fetchall_eq stored_prefix_def Let_def)
qed

theorem get_prefix_or_default_cases_witness:
  "(outcome gateway1 0 \<and> outcome gateway1 1 \<and> outcome gateway1 2)
   \<and> stored_prefix gateway1 1 = VText ''!''
   \<and> fst (get_prefix_or_default app_settings0 gateway1 1) = Inr ''!''
   \<and> stored_prefix gateway0 1 = VNull
   \<and> fst (get_prefix_or_default app_settings0 gateway0 1) = Inr ''/''"
proof -
  have ok1: "outcome gateway1 0 \<and> outcome gateway1 1 \<and> outcome gateway1 2"
    by (simp add: gateway1_fields)
  have ok0: "outcome gateway0 0 \<and> outcome gateway0 1 \<and> outcome gateway0 2"
    by simp
  have stored1: "stored_prefix gateway1 1 = VText ''!''"
    by (simp add: stored_prefix_def gateway1_fields row1_guild)
       (simp add: row_get_def row1_def column_names)
  have stored0: "stored_prefix gateway0 1 = VNull"
    by (simp add: stored_prefix_def gateway0_def)
  show ?thesis
    using get_prefix_or_default_cases [OF ok1, of app_settings0 1]
      get_prefix_or_default_cases [OF ok0, of app_settings0 1] ok1 stored1 stored0
    by (simp add: app_settings0_def lower_def lower_char_def)
qed


end
